theory Spec2Isabelle
  imports Main "HOL-Library.List_Lexorder"
begin

section \<open>Python values used by server.py\<close>

text \<open>
  A Python \<open>str\<close> is a sequence of Unicode code points: \<open>len\<close> and slicing count code
  points, so a \<open>str\<close> is modelled as a list of code points. \<open>lit\<close> embeds an ASCII
  literal of the source.
\<close>

type_synonym pystr = "nat list"
type_synonym bytes = "nat list"
type_synonym datetime = nat

definition lit :: "string \<Rightarrow> pystr" where
  "lit s = map of_char s"

definition nl :: pystr where
  "nl = [10]"

text \<open>
  \<open>str.strip()\<close> removes leading and trailing whitespace; the code points below are the
  ones CPython's \<open>str.isspace\<close> accepts.
\<close>

definition isspace :: "nat \<Rightarrow> bool" where
  "isspace c \<longleftrightarrow>
     c \<in> {9, 10, 11, 12, 13, 28, 29, 30, 31, 32, 133, 160, 5760,
          8232, 8233, 8239, 8287, 12288} \<or> (8192 \<le> c \<and> c \<le> 8202)"

definition py_strip :: "pystr \<Rightarrow> pystr" where
  "py_strip s = rev (dropWhile isspace (rev (dropWhile isspace s)))"

text \<open>
  \<open>str.lower()\<close> on the ASCII range. The source only compares the result with
  \<open>"hindi"\<close>; no code point outside ASCII lowers to one of the letters h, i, n, d alone,
  so the comparison is decided by the ASCII letters.
\<close>

definition py_lower :: "pystr \<Rightarrow> pystr" where
  "py_lower s = map (\<lambda>c. if 65 \<le> c \<and> c \<le> 90 then c + 32 else c) s"

text \<open>
  Exceptions: FastAPI's \<open>HTTPException(status_code, detail)\<close>, and any other
  \<open>Exception\<close> with its \<open>str(e)\<close>.
\<close>

datatype exn = HTTPException nat pystr | OtherException pystr

section \<open>Models (pydantic classes) and stored documents\<close>

record ChatMessage =
  cm_id :: pystr
  cm_session_id :: pystr
  cm_message :: pystr
  cm_response :: pystr
  cm_timestamp :: datetime
  cm_message_type :: pystr

record ChatRequest =
  req_message :: pystr
  req_session_id :: "pystr option"
  req_language :: pystr

record ChatResponse =
  resp_response :: pystr
  resp_session_id :: pystr
  resp_timestamp :: datetime
  resp_sources :: "pystr list"

record DocumentUpload =
  du_id :: pystr
  du_session_id :: pystr
  du_filename :: pystr
  du_extracted_text :: pystr
  du_simplified_explanation :: pystr
  du_timestamp :: datetime

text \<open>
  The values a stored document holds under its keys: strings and datetimes. A stored
  document is schema-less: a dict from key to value, where a key may be missing. The
  store's own \<open>_id\<close> key holds an ObjectId, kept apart in \<open>doc_oid\<close> as the hexadecimal
  string that \<open>str\<close> gives for it.
\<close>

datatype bson = BStr pystr | BDatetime datetime

record mongo_doc =
  doc_oid :: "pystr option"
  doc_fields :: "string \<rightharpoonup> bson"

definition ChatMessage_dict :: "ChatMessage \<Rightarrow> (string \<rightharpoonup> bson)" where
  "ChatMessage_dict m =
     [''id'' \<mapsto> BStr (cm_id m),
      ''session_id'' \<mapsto> BStr (cm_session_id m),
      ''message'' \<mapsto> BStr (cm_message m),
      ''response'' \<mapsto> BStr (cm_response m),
      ''timestamp'' \<mapsto> BDatetime (cm_timestamp m),
      ''message_type'' \<mapsto> BStr (cm_message_type m)]"

definition DocumentUpload_dict :: "DocumentUpload \<Rightarrow> (string \<rightharpoonup> bson)" where
  "DocumentUpload_dict d =
     [''id'' \<mapsto> BStr (du_id d),
      ''session_id'' \<mapsto> BStr (du_session_id d),
      ''filename'' \<mapsto> BStr (du_filename d),
      ''extracted_text'' \<mapsto> BStr (du_extracted_text d),
      ''simplified_explanation'' \<mapsto> BStr (du_simplified_explanation d),
      ''timestamp'' \<mapsto> BDatetime (du_timestamp d)]"

section \<open>The document store and the external collaborators\<close>

text \<open>
  The database \<open>db\<close> has the two collections the handlers use. Each collection is the
  list of its documents in insertion order.
\<close>

record db =
  documents :: "mongo_doc list"
  chat_messages :: "mongo_doc list"

text \<open>
  What one request gets from outside the module: the values of \<open>uuid.uuid4()\<close> and
  \<open>datetime.utcnow()\<close> at each place they are called, the ObjectIds the driver assigns,
  and the outcome of each call to a collaborator. A collaborator either returns or raises;
  \<open>Inl\<close> carries the \<open>str\<close> of the exception raised. The API key, the system message and
  the model name given to \<open>LlmChat\<close> are constants of the module, so the responder is a
  function of the session id and the text sent.
\<close>

record env =
  uuid4_session :: pystr
  uuid4_chat_id :: pystr
  uuid4_doc_id :: pystr
  utcnow_chat :: datetime
  utcnow_doc :: datetime
  utcnow_response :: datetime
  oid_chat :: pystr
  oid_doc :: pystr
  send_message :: "pystr \<Rightarrow> pystr \<Rightarrow> pystr + pystr"
  pdf_page_texts :: "bytes \<Rightarrow> pystr + pystr list"
  image_to_string :: "bytes \<Rightarrow> pystr + pystr"
  documents_fault :: "pystr option"
  chat_messages_fault :: "pystr option"
  find_fault :: "pystr option"

text \<open>
  \<open>insert_one\<close>: the driver raises (nothing stored), or appends the dict under a new
  \<open>_id\<close>.
\<close>

definition insert_one ::
  "pystr option \<Rightarrow> pystr \<Rightarrow> (string \<rightharpoonup> bson) \<Rightarrow> mongo_doc list \<Rightarrow> (pystr + unit) \<times> mongo_doc list" where
  "insert_one fault new_oid d coll =
     (case fault of
        Some err \<Rightarrow> (Inl err, coll)
      | None \<Rightarrow> (Inr (), coll @ [\<lparr>doc_oid = Some new_oid, doc_fields = d\<rparr>]))"

text \<open>
  \<open>find({"session_id": s}).sort("timestamp", 1).to_list(100)\<close>: the equality filter, the
  ascending sort in the store's order of values (a missing key first, then strings, then
  dates), and the limit. \<open>bson_key\<close> maps a value to a list of numbers whose lexicographic
  order is that order.
\<close>

definition find_session :: "pystr \<Rightarrow> mongo_doc list \<Rightarrow> mongo_doc list" where
  "find_session session_id coll =
     filter (\<lambda>d. doc_fields d ''session_id'' = Some (BStr session_id)) coll"

fun bson_key :: "bson \<Rightarrow> nat list" where
  "bson_key (BStr s) = 1 # s"
| "bson_key (BDatetime t) = [2, t]"

definition timestamp_key :: "mongo_doc \<Rightarrow> nat list" where
  "timestamp_key d =
     (case doc_fields d ''timestamp'' of
        None \<Rightarrow> []
      | Some v \<Rightarrow> bson_key v)"

definition sort_timestamp :: "mongo_doc list \<Rightarrow> mongo_doc list" where
  "sort_timestamp ds = sort_key timestamp_key ds"

definition to_list :: "nat \<Rightarrow> mongo_doc list \<Rightarrow> mongo_doc list" where
  "to_list n ds = take n ds"

section \<open>Helper functions of server.py\<close>

definition apology :: pystr where
  "apology = lit ''I apologize, but I'm having trouble processing your request right now. Please try again later.''"

text \<open>The message as \<open>get_ai_response\<close> rewrites it before sending.\<close>

definition language_message :: "pystr \<Rightarrow> pystr \<Rightarrow> pystr" where
  "language_message language message =
     (if py_lower language = lit ''hindi''
      then lit ''Please respond in simple Hindi (Devanagari script): '' @ message
      else lit ''Please respond in simple English: '' @ message)"

definition get_ai_response :: "env \<Rightarrow> pystr \<Rightarrow> pystr \<Rightarrow> pystr \<Rightarrow> pystr" where
  "get_ai_response e message session_id language =
     (case send_message e session_id (language_message language message) of
        Inr response \<Rightarrow> response
      | Inl err \<Rightarrow> apology)"

definition extract_text_from_pdf :: "env \<Rightarrow> bytes \<Rightarrow> exn + pystr" where
  "extract_text_from_pdf e file_content =
     (case pdf_page_texts e file_content of
        Inr pages \<Rightarrow> Inr (py_strip (concat (map (\<lambda>page. page @ nl) pages)))
      | Inl err \<Rightarrow> Inl (HTTPException 400 (lit ''Failed to extract text from PDF'')))"

definition extract_text_from_image :: "env \<Rightarrow> bytes \<Rightarrow> exn + pystr" where
  "extract_text_from_image e file_content =
     (case image_to_string e file_content of
        Inr text \<Rightarrow> Inr (py_strip text)
      | Inl err \<Rightarrow> Inl (HTTPException 400 (lit ''Failed to extract text from image'')))"

section \<open>POST /chat\<close>

text \<open>\<open>request.session_id or str(uuid.uuid4())\<close>: \<open>None\<close> and the empty string are both falsy.\<close>

definition session_or_new :: "env \<Rightarrow> ChatRequest \<Rightarrow> pystr" where
  "session_or_new e request =
     (case req_session_id request of
        None \<Rightarrow> uuid4_session e
      | Some sid \<Rightarrow> if sid = [] then uuid4_session e else sid)"

definition chat_endpoint :: "env \<Rightarrow> ChatRequest \<Rightarrow> db \<Rightarrow> (exn + ChatResponse) \<times> db" where
  "chat_endpoint e request s =
     (let session_id = session_or_new e request;
          ai_response = get_ai_response e (req_message request) session_id (req_language request);
          chat_record =
            \<lparr>cm_id = uuid4_chat_id e, cm_session_id = session_id,
             cm_message = req_message request, cm_response = ai_response,
             cm_timestamp = utcnow_chat e, cm_message_type = lit ''text''\<rparr>
      in case insert_one (chat_messages_fault e) (oid_chat e)
                (ChatMessage_dict chat_record) (chat_messages s) of
           (Inl err, coll) \<Rightarrow>
             (Inl (HTTPException 500 (lit ''Failed to process chat request'')),
              s\<lparr>chat_messages := coll\<rparr>)
         | (Inr u, coll) \<Rightarrow>
             (Inr \<lparr>resp_response = ai_response, resp_session_id = session_id,
                   resp_timestamp = utcnow_response e,
                   resp_sources = [lit ''Indian Legal Database'', lit ''Government Schemes Portal'']\<rparr>,
              s\<lparr>chat_messages := coll\<rparr>))"

section \<open>POST /upload-document\<close>

text \<open>
  The uploaded file: its name, its declared content type (absent when the part declares
  none) and its bytes.
\<close>

record UploadFile =
  uf_filename :: pystr
  uf_content_type :: "pystr option"
  uf_content :: bytes

record upload_result =
  up_message :: pystr
  up_extracted_text :: pystr
  up_explanation :: pystr
  up_session_id :: pystr

definition allowed_types :: "pystr list" where
  "allowed_types = [lit ''application/pdf'', lit ''image/jpeg'', lit ''image/png'', lit ''image/jpg'']"

definition explanation_prompt :: "pystr \<Rightarrow> pystr \<Rightarrow> pystr" where
  "explanation_prompt language extracted_text =
     lit ''Analyze this legal document and provide a simplified explanation in ''
     @ (if language = lit ''hindi'' then lit ''Hindi'' else lit ''English'') @ lit '':'' @ nl
     @ nl
     @ lit ''Document Text:'' @ nl
     @ extracted_text @ nl
     @ nl
     @ lit ''Please provide:'' @ nl
     @ lit ''1. What type of legal document this is'' @ nl
     @ lit ''2. Key points and important information'' @ nl
     @ lit ''3. What actions the person should take (if any)'' @ nl
     @ lit ''4. Any deadlines or important dates'' @ nl
     @ lit ''5. Rights and obligations mentioned'' @ nl
     @ lit ''6. Whether legal consultation is recommended'' @ nl
     @ nl
     @ lit ''Make the explanation simple and easy to understand for someone with limited legal knowledge.''"

definition extract_text :: "env \<Rightarrow> UploadFile \<Rightarrow> exn + pystr" where
  "extract_text e file =
     (if uf_content_type file = Some (lit ''application/pdf'')
      then extract_text_from_pdf e (uf_content file)
      else extract_text_from_image e (uf_content file))"

definition truncated :: "pystr \<Rightarrow> pystr" where
  "truncated extracted_text =
     (if length extracted_text > 500 then take 500 extracted_text @ lit ''...''
      else extracted_text)"

definition upload_document ::
  "env \<Rightarrow> UploadFile \<Rightarrow> pystr \<Rightarrow> pystr \<Rightarrow> db \<Rightarrow> (exn + upload_result) \<times> db" where
  "upload_document e file session_id language s =
     (if uf_content_type file \<notin> Some ` set allowed_types
      then (Inl (HTTPException 400 (lit ''Only PDF and image files are supported'')), s)
      else (case extract_text e file of
        Inl ex \<Rightarrow> (Inl ex, s)
      | Inr extracted_text \<Rightarrow>
          if extracted_text = []
          then (Inl (HTTPException 400 (lit ''No text could be extracted from the document'')), s)
          else
           (let ai_explanation =
                  get_ai_response e (explanation_prompt language extracted_text) session_id language;
                doc_record =
                  \<lparr>du_id = uuid4_doc_id e, du_session_id = session_id,
                   du_filename = uf_filename file, du_extracted_text = extracted_text,
                   du_simplified_explanation = ai_explanation, du_timestamp = utcnow_doc e\<rparr>
            in (case insert_one (documents_fault e) (oid_doc e)
                      (DocumentUpload_dict doc_record) (documents s) of
                 (Inl err, docs) \<Rightarrow>
                   (Inl (HTTPException 500 (lit ''Failed to process document'')),
                    s\<lparr>documents := docs\<rparr>)
               | (Inr u, docs) \<Rightarrow>
                  (let s1 = s\<lparr>documents := docs\<rparr>;
                       chat_record =
                         \<lparr>cm_id = uuid4_chat_id e, cm_session_id = session_id,
                          cm_message = lit ''Uploaded document: '' @ uf_filename file,
                          cm_response = ai_explanation,
                          cm_timestamp = utcnow_chat e, cm_message_type = lit ''document''\<rparr>
                   in (case insert_one (chat_messages_fault e) (oid_chat e)
                             (ChatMessage_dict chat_record) (chat_messages s1) of
                        (Inl err, msgs) \<Rightarrow>
                          (Inl (HTTPException 500 (lit ''Failed to process document'')),
                           s1\<lparr>chat_messages := msgs\<rparr>)
                      | (Inr u, msgs) \<Rightarrow>
                          (Inr \<lparr>up_message = lit ''Document processed successfully'',
                                up_extracted_text = truncated extracted_text,
                                up_explanation = ai_explanation,
                                up_session_id = session_id\<rparr>,
                           s1\<lparr>chat_messages := msgs\<rparr>)))))))"

text \<open>The records an upload writes, and its answer, as the handler builds them.\<close>

definition upload_doc_record :: "env \<Rightarrow> UploadFile \<Rightarrow> pystr \<Rightarrow> pystr \<Rightarrow> pystr \<Rightarrow> mongo_doc" where
  "upload_doc_record e file session_id language t =
     \<lparr>doc_oid = Some (oid_doc e),
      doc_fields = DocumentUpload_dict
        \<lparr>du_id = uuid4_doc_id e, du_session_id = session_id,
         du_filename = uf_filename file, du_extracted_text = t,
         du_simplified_explanation =
           get_ai_response e (explanation_prompt language t) session_id language,
         du_timestamp = utcnow_doc e\<rparr>\<rparr>"

definition upload_chat_record :: "env \<Rightarrow> UploadFile \<Rightarrow> pystr \<Rightarrow> pystr \<Rightarrow> pystr \<Rightarrow> mongo_doc" where
  "upload_chat_record e file session_id language t =
     \<lparr>doc_oid = Some (oid_chat e),
      doc_fields = ChatMessage_dict
        \<lparr>cm_id = uuid4_chat_id e, cm_session_id = session_id,
         cm_message = lit ''Uploaded document: '' @ uf_filename file,
         cm_response = get_ai_response e (explanation_prompt language t) session_id language,
         cm_timestamp = utcnow_chat e, cm_message_type = lit ''document''\<rparr>\<rparr>"

section \<open>GET /chat-history/{session_id}\<close>

record clean_msg =
  h_id :: bson
  h_session_id :: bson
  h_message :: bson
  h_response :: bson
  h_timestamp :: bson
  h_message_type :: bson

definition dict_get :: "(string \<rightharpoonup> bson) \<Rightarrow> string \<Rightarrow> bson \<Rightarrow> bson" where
  "dict_get m k dflt = (case m k of Some v \<Rightarrow> v | None \<Rightarrow> dflt)"

definition clean :: "mongo_doc \<Rightarrow> clean_msg" where
  "clean msg =
     \<lparr>h_id = dict_get (doc_fields msg) ''id''
               (BStr (case doc_oid msg of Some h \<Rightarrow> h | None \<Rightarrow> [])),
      h_session_id = dict_get (doc_fields msg) ''session_id'' (BStr []),
      h_message = dict_get (doc_fields msg) ''message'' (BStr []),
      h_response = dict_get (doc_fields msg) ''response'' (BStr []),
      h_timestamp = dict_get (doc_fields msg) ''timestamp'' (BStr []),
      h_message_type = dict_get (doc_fields msg) ''message_type'' (BStr (lit ''text''))\<rparr>"

definition get_chat_history :: "env \<Rightarrow> pystr \<Rightarrow> db \<Rightarrow> exn + clean_msg list" where
  "get_chat_history e session_id s =
     (case find_fault e of
        Some err \<Rightarrow> Inl (HTTPException 500 (lit ''Failed to retrieve chat history: '' @ err))
      | None \<Rightarrow>
          Inr (map clean (to_list 100 (sort_timestamp (find_session session_id (chat_messages s))))))"

section \<open>Example inputs\<close>

text \<open>
  A request environment in which every collaborator answers, a store with some history,
  and some uploads, used to run the handlers on concrete inputs.
\<close>

definition example_env :: env where
  "example_env =
     \<lparr>uuid4_session = lit ''u-1'', uuid4_chat_id = lit ''u-2'', uuid4_doc_id = lit ''u-3'',
      utcnow_chat = 1001, utcnow_doc = 1000, utcnow_response = 1002,
      oid_chat = lit ''a1'', oid_doc = lit ''a2'',
      send_message = (\<lambda>session_id text. Inr (lit ''Answer'')),
      pdf_page_texts = (\<lambda>content. if content = [] then Inr [lit '' '', [9, 32]]
                                       else Inr [lit ''Notice'', lit ''of hearing '']),
      image_to_string = (\<lambda>content. if content = [] then Inr [32, 10]
                                        else Inr (lit '' Summons '')),
      documents_fault = None, chat_messages_fault = None, find_fault = None\<rparr>"

definition failing_ai_env :: env where
  "failing_ai_env = example_env\<lparr>send_message := (\<lambda>session_id text. Inl (lit ''timeout''))\<rparr>"

definition failing_chat_store_env :: env where
  "failing_chat_store_env = example_env\<lparr>chat_messages_fault := Some (lit ''down'')\<rparr>"

definition example_pdf :: UploadFile where
  "example_pdf =
     \<lparr>uf_filename = lit ''notice.pdf'', uf_content_type = Some (lit ''application/pdf''),
      uf_content = [37, 80, 68, 70]\<rparr>"

definition blank_pdf :: UploadFile where
  "blank_pdf =
     \<lparr>uf_filename = lit ''blank.pdf'', uf_content_type = Some (lit ''application/pdf''),
      uf_content = []\<rparr>"

definition blank_png :: UploadFile where
  "blank_png =
     \<lparr>uf_filename = lit ''blank.png'', uf_content_type = Some (lit ''image/png''),
      uf_content = []\<rparr>"

definition example_text_file :: UploadFile where
  "example_text_file =
     \<lparr>uf_filename = lit ''notes.txt'', uf_content_type = Some (lit ''text/plain''),
      uf_content = [104, 105]\<rparr>"

definition example_request :: ChatRequest where
  "example_request =
     \<lparr>req_message = lit ''What is RTI?'', req_session_id = Some (lit ''s1''),
      req_language = lit ''Hindi''\<rparr>"

definition example_db :: db where
  "example_db =
     \<lparr>documents = [],
      chat_messages =
        [\<lparr>doc_oid = Some (lit ''b2''),
          doc_fields = [''session_id'' \<mapsto> BStr (lit ''s1''), ''timestamp'' \<mapsto> BDatetime 7,
                        ''message'' \<mapsto> BStr (lit ''hello'')]\<rparr>,
         \<lparr>doc_oid = Some (lit ''b3''),
          doc_fields = [''session_id'' \<mapsto> BStr (lit ''s2''), ''timestamp'' \<mapsto> BDatetime 5]\<rparr>,
         \<lparr>doc_oid = Some (lit ''b1''),
          doc_fields = [''id'' \<mapsto> BStr (lit ''m1''), ''session_id'' \<mapsto> BStr (lit ''s1''),
                        ''timestamp'' \<mapsto> BDatetime 3]\<rparr>]\<rparr>"

section \<open>Properties\<close>

lemma insert_one_ok:
  "insert_one None new_oid d coll = (Inr (), coll @ [\<lparr>doc_oid = Some new_oid, doc_fields = d\<rparr>])"
  by (simp add: insert_one_def)

lemma insert_one_fault:
  "insert_one (Some err) new_oid d coll = (Inl err, coll)"
  by (simp add: insert_one_def)

subsection \<open>Unsupported content types\<close>

text \<open>
  C1. An upload whose declared content type is not one of the accepted types (PDF, JPEG,
  PNG; the allow-list \<open>allowed_types\<close> spells JPEG both as image/jpeg and as image/jpg)
  is answered with the 400 error "Only PDF and image files are supported", and the store
  is returned as it was: no DocumentUpload and no ChatMessage is written.
\<close>

theorem upload_unsupported_type:
  assumes "uf_content_type file \<notin> Some ` set allowed_types"
  shows "upload_document e file session_id language s =
           (Inl (HTTPException 400 (lit ''Only PDF and image files are supported'')), s)"
  using assms by (simp add: upload_document_def)

theorem upload_unsupported_type_witness:
  "uf_content_type example_text_file \<notin> Some ` set allowed_types \<and>
   upload_document example_env example_text_file (lit ''s1'') (lit ''english'') example_db =
     (Inl (HTTPException 400 (lit ''Only PDF and image files are supported'')), example_db)"
proof -
  have h: "uf_content_type example_text_file \<notin> Some ` set allowed_types"
    by (simp add: example_text_file_def allowed_types_def lit_def)
  from h upload_unsupported_type [OF h] show ?thesis by simp
qed

subsection \<open>Empty extraction\<close>

lemma py_strip_all_space:
  assumes "\<forall>c\<in>set t. isspace c"
  shows "py_strip t = []"
proof -
  from assms have "dropWhile isspace t = []"
    by (simp only: dropWhile_eq_Nil_conv)
  then show ?thesis
    by (simp add: py_strip_def del: dropWhile_eq_Nil_conv)
qed

lemma blank_pages_strip:
  "\<forall>page\<in>set pages. \<forall>c\<in>set page. isspace c \<Longrightarrow>
   py_strip (concat (map (\<lambda>page. page @ nl) pages)) = []"
  by (rule py_strip_all_space) (auto simp: nl_def isspace_def)

lemma upload_document_empty:
  assumes "uf_content_type file \<in> Some ` set allowed_types" and "extract_text e file = Inr []"
  shows "upload_document e file session_id language s =
           (Inl (HTTPException 400 (lit ''No text could be extracted from the document'')), s)"
  using assms by (simp add: upload_document_def)

lemma pdf_allowed: "Some (lit ''application/pdf'') \<in> Some ` set allowed_types"
  by (simp add: allowed_types_def)

text \<open>
  C2. An upload of an accepted type whose extraction gives the empty text is answered with
  the 400 error "No text could be extracted from the document" and the store is returned
  as it was. A PDF whose pages hold only whitespace, and an image whose recognised text
  is only whitespace, are such uploads: \<open>strip\<close> leaves nothing of the text.
\<close>

theorem upload_empty_extraction:
  "(uf_content_type file \<in> Some ` set allowed_types \<and> extract_text e file = Inr [] \<longrightarrow>
      upload_document e file session_id language s =
        (Inl (HTTPException 400 (lit ''No text could be extracted from the document'')), s))
   \<and> (uf_content_type file = Some (lit ''application/pdf'') \<and>
       pdf_page_texts e (uf_content file) = Inr pages \<and>
       (\<forall>page\<in>set pages. \<forall>c\<in>set page. isspace c) \<longrightarrow>
      upload_document e file session_id language s =
        (Inl (HTTPException 400 (lit ''No text could be extracted from the document'')), s))
   \<and> (uf_content_type file \<in> Some ` set allowed_types \<and>
       uf_content_type file \<noteq> Some (lit ''application/pdf'') \<and>
       image_to_string e (uf_content file) = Inr text \<and> (\<forall>c\<in>set text. isspace c) \<longrightarrow>
      upload_document e file session_id language s =
        (Inl (HTTPException 400 (lit ''No text could be extracted from the document'')), s))"
proof (intro conjI impI)
  assume "uf_content_type file \<in> Some ` set allowed_types \<and> extract_text e file = Inr []"
  then show "upload_document e file session_id language s =
        (Inl (HTTPException 400 (lit ''No text could be extracted from the document'')), s)"
    by (simp add: upload_document_empty)
next
  assume a: "uf_content_type file = Some (lit ''application/pdf'') \<and>
       pdf_page_texts e (uf_content file) = Inr pages \<and>
       (\<forall>page\<in>set pages. \<forall>c\<in>set page. isspace c)"
  then have "extract_text e file = Inr []"
    by (simp add: extract_text_def extract_text_from_pdf_def blank_pages_strip)
  moreover from a have "uf_content_type file \<in> Some ` set allowed_types"
    by (simp add: pdf_allowed)
  ultimately show "upload_document e file session_id language s =
        (Inl (HTTPException 400 (lit ''No text could be extracted from the document'')), s)"
    by (rule upload_document_empty[rotated])
next
  assume a: "uf_content_type file \<in> Some ` set allowed_types \<and>
       uf_content_type file \<noteq> Some (lit ''application/pdf'') \<and>
       image_to_string e (uf_content file) = Inr text \<and> (\<forall>c\<in>set text. isspace c)"
  then have "extract_text e file = Inr []"
    by (simp add: extract_text_def extract_text_from_image_def py_strip_all_space)
  with a show "upload_document e file session_id language s =
        (Inl (HTTPException 400 (lit ''No text could be extracted from the document'')), s)"
    by (simp add: upload_document_empty)
qed

lemma blank_pdf_pages:
  "pdf_page_texts example_env (uf_content blank_pdf) = Inr [lit '' '', [9, 32]]"
  by (simp add: example_env_def blank_pdf_def)

lemma blank_pdf_spaces: "\<forall>page\<in>set [lit '' '', [9, 32]]. \<forall>c\<in>set page. isspace c"
  by (simp add: lit_def isspace_def)

lemma blank_pdf_extract: "extract_text example_env blank_pdf = Inr []"
proof -
  have "py_strip (concat (map (\<lambda>page. page @ nl) [lit '' '', [9, 32]])) = []"
    using blank_pdf_spaces by (rule blank_pages_strip)
  then show ?thesis
    by (simp add: extract_text_def extract_text_from_pdf_def blank_pdf_pages)
       (simp add: blank_pdf_def)
qed

lemma blank_png_facts:
  "uf_content_type blank_png \<in> Some ` set allowed_types"
  "uf_content_type blank_png \<noteq> Some (lit ''application/pdf'')"
  "image_to_string example_env (uf_content blank_png) = Inr [32, 10]"
  "\<forall>c\<in>set [32, 10]. isspace c"
  by (simp_all add: blank_png_def allowed_types_def example_env_def isspace_def lit_def)

theorem upload_empty_extraction_witness:
  "uf_content_type blank_pdf \<in> Some ` set allowed_types \<and>
   extract_text example_env blank_pdf = Inr [] \<and>
   uf_content_type blank_pdf = Some (lit ''application/pdf'') \<and>
   pdf_page_texts example_env (uf_content blank_pdf) = Inr [lit '' '', [9, 32]] \<and>
   list_all (list_all isspace) [lit '' '', [9, 32]] \<and>
   upload_document example_env blank_pdf (lit ''s1'') (lit ''english'') example_db =
     (Inl (HTTPException 400 (lit ''No text could be extracted from the document'')), example_db) \<and>
   uf_content_type blank_png \<in> Some ` set allowed_types \<and>
   uf_content_type blank_png \<noteq> Some (lit ''application/pdf'') \<and>
   image_to_string example_env (uf_content blank_png) = Inr [32, 10] \<and>
   list_all isspace [32, 10] \<and>
   upload_document example_env blank_png (lit ''s1'') (lit ''english'') example_db =
     (Inl (HTTPException 400 (lit ''No text could be extracted from the document'')), example_db)"
proof -
  have t: "uf_content_type blank_pdf = Some (lit ''application/pdf'')"
    by (simp add: blank_pdf_def)
  have a: "uf_content_type blank_pdf \<in> Some ` set allowed_types"
    by (simp add: t pdf_allowed)
  from upload_empty_extraction [of blank_pdf example_env "lit ''s1''" "lit ''english''" example_db
      "[lit '' '', [9, 32]]"] t a blank_pdf_pages blank_pdf_spaces blank_pdf_extract
  have pdf: "upload_document example_env blank_pdf (lit ''s1'') (lit ''english'') example_db =
     (Inl (HTTPException 400 (lit ''No text could be extracted from the document'')), example_db)"
    by blast
  from upload_empty_extraction [of blank_png example_env "lit ''s1''" "lit ''english''" example_db
      _ "[32, 10]"] blank_png_facts
  have png: "upload_document example_env blank_png (lit ''s1'') (lit ''english'') example_db =
     (Inl (HTTPException 400 (lit ''No text could be extracted from the document'')), example_db)"
    by blast
  from pdf png t a blank_pdf_pages blank_pdf_spaces blank_pdf_extract blank_png_facts
  show ?thesis unfolding list_all_iff by blast
qed

subsection \<open>What the handlers compute\<close>

lemma ChatMessage_dict_simps:
  "ChatMessage_dict m ''id'' = Some (BStr (cm_id m))"
  "ChatMessage_dict m ''session_id'' = Some (BStr (cm_session_id m))"
  "ChatMessage_dict m ''message'' = Some (BStr (cm_message m))"
  "ChatMessage_dict m ''response'' = Some (BStr (cm_response m))"
  "ChatMessage_dict m ''timestamp'' = Some (BDatetime (cm_timestamp m))"
  "ChatMessage_dict m ''message_type'' = Some (BStr (cm_message_type m))"
  by (simp_all add: ChatMessage_dict_def)

lemma DocumentUpload_dict_simps:
  "DocumentUpload_dict d ''id'' = Some (BStr (du_id d))"
  "DocumentUpload_dict d ''session_id'' = Some (BStr (du_session_id d))"
  "DocumentUpload_dict d ''filename'' = Some (BStr (du_filename d))"
  "DocumentUpload_dict d ''extracted_text'' = Some (BStr (du_extracted_text d))"
  "DocumentUpload_dict d ''simplified_explanation'' = Some (BStr (du_simplified_explanation d))"
  "DocumentUpload_dict d ''timestamp'' = Some (BDatetime (du_timestamp d))"
  by (simp_all add: DocumentUpload_dict_def)

lemma upload_document_ok:
  assumes "uf_content_type file \<in> Some ` set allowed_types"
    and "extract_text e file = Inr t" and "t \<noteq> []"
    and "documents_fault e = None" and "chat_messages_fault e = None"
  shows "upload_document e file session_id language s =
     (Inr \<lparr>up_message = lit ''Document processed successfully'',
           up_extracted_text = truncated t,
           up_explanation = get_ai_response e (explanation_prompt language t) session_id language,
           up_session_id = session_id\<rparr>,
      s\<lparr>documents := documents s @ [upload_doc_record e file session_id language t],
        chat_messages := chat_messages s @ [upload_chat_record e file session_id language t]\<rparr>)"
  using assms
  by (simp add: upload_document_def insert_one_def Let_def upload_doc_record_def
      upload_chat_record_def)

lemma upload_document_chat_fault:
  assumes "uf_content_type file \<in> Some ` set allowed_types"
    and "extract_text e file = Inr t" and "t \<noteq> []"
    and "documents_fault e = None" and "chat_messages_fault e = Some err"
  shows "upload_document e file session_id language s =
     (Inl (HTTPException 500 (lit ''Failed to process document'')),
      s\<lparr>documents := documents s @ [upload_doc_record e file session_id language t]\<rparr>)"
  using assms
  by (simp add: upload_document_def insert_one_def Let_def upload_doc_record_def)

lemma upload_document_InrD:
  assumes "upload_document e file session_id language s = (Inr r, s')"
  shows "uf_content_type file \<in> Some ` set allowed_types \<and>
         (\<exists>t. extract_text e file = Inr t \<and> t \<noteq> []) \<and>
         documents_fault e = None \<and> chat_messages_fault e = None"
  using assms
  by (auto simp: upload_document_def insert_one_def Let_def
      split: if_splits sum.splits option.splits)

lemma chat_endpoint_ok:
  assumes "chat_messages_fault e = None"
  shows "chat_endpoint e request s =
     (Inr \<lparr>resp_response =
             get_ai_response e (req_message request) (session_or_new e request) (req_language request),
           resp_session_id = session_or_new e request,
           resp_timestamp = utcnow_response e,
           resp_sources = [lit ''Indian Legal Database'', lit ''Government Schemes Portal'']\<rparr>,
      s\<lparr>chat_messages := chat_messages s @
          [\<lparr>doc_oid = Some (oid_chat e),
            doc_fields = ChatMessage_dict
              \<lparr>cm_id = uuid4_chat_id e, cm_session_id = session_or_new e request,
               cm_message = req_message request,
               cm_response = get_ai_response e (req_message request) (session_or_new e request)
                               (req_language request),
               cm_timestamp = utcnow_chat e, cm_message_type = lit ''text''\<rparr>\<rparr>]\<rparr>)"
  using assms by (simp add: chat_endpoint_def insert_one_def Let_def)

lemma chat_endpoint_fault:
  assumes "chat_messages_fault e = Some err"
  shows "chat_endpoint e request s =
     (Inl (HTTPException 500 (lit ''Failed to process chat request'')), s)"
  using assms by (simp add: chat_endpoint_def insert_one_def Let_def)

lemma chat_endpoint_InrD:
  assumes "chat_endpoint e request s = (Inr r, s')"
  shows "chat_messages_fault e = None"
proof (cases "chat_messages_fault e")
  case None
  then show ?thesis .
next
  case (Some err)
  with assms show ?thesis by (simp add: chat_endpoint_fault)
qed

lemma get_ai_response_failure:
  "send_message e session_id (language_message language message) = Inl err \<Longrightarrow>
   get_ai_response e message session_id language = apology"
  by (simp add: get_ai_response_def)

lemma language_message_longer: "length message < length (language_message language message)"
  by (simp add: language_message_def lit_def)


subsection \<open>The example inputs, evaluated\<close>

lemma example_pdf_allowed: "uf_content_type example_pdf \<in> Some ` set allowed_types"
  by (simp add: example_pdf_def allowed_types_def)

lemma example_pdf_extract:
  "extract_text example_env example_pdf = Inr (lit ''Notice'' @ nl @ lit ''of hearing'')"
  by (simp add: extract_text_def extract_text_from_pdf_def example_env_def example_pdf_def
      py_strip_def isspace_def lit_def nl_def)

lemma example_pdf_extract_store_fault:
  "extract_text failing_chat_store_env example_pdf = Inr (lit ''Notice'' @ nl @ lit ''of hearing'')"
  by (simp add: extract_text_def extract_text_from_pdf_def failing_chat_store_env_def
      example_env_def example_pdf_def py_strip_def isspace_def lit_def nl_def)

lemma example_text_nonempty: "lit ''Notice'' @ nl @ lit ''of hearing'' \<noteq> []"
  by (simp add: lit_def)

lemma example_env_faults:
  "documents_fault example_env = None" "chat_messages_fault example_env = None"
  "find_fault example_env = None"
  by (simp_all add: example_env_def)

lemma example_upload_run:
  "\<exists>r s'. upload_document example_env example_pdf (lit ''s1'') (lit ''english'') example_db
            = (Inr r, s')"
  using upload_document_ok [OF example_pdf_allowed example_pdf_extract example_text_nonempty
      example_env_faults(1) example_env_faults(2)]
  by blast

subsection \<open>Successful uploads\<close>

text \<open>
  C3. After a successful upload the stored DocumentUpload holds the whole extracted text,
  and the answer's \<open>extracted_text\<close> is that text when it has at most 500 characters, and
  its first 500 characters followed by "..." when it is longer.
\<close>

theorem upload_response_text:
  assumes "upload_document e file session_id language s = (Inr r, s')"
  shows "\<exists>t d. extract_text e file = Inr t \<and>
           documents s' = documents s @ [d] \<and>
           doc_fields d ''extracted_text'' = Some (BStr t) \<and>
           up_extracted_text r = (if length t \<le> 500 then t else take 500 t @ lit ''...'')"
proof -
  from upload_document_InrD [OF assms] obtain t where
    pre: "uf_content_type file \<in> Some ` set allowed_types" "extract_text e file = Inr t"
      "t \<noteq> []" "documents_fault e = None" "chat_messages_fault e = None"
    by blast
  from assms upload_document_ok [OF pre, of session_id language s]
  have r: "up_extracted_text r = truncated t"
    and s': "documents s' = documents s @ [upload_doc_record e file session_id language t]"
    by auto
  have "doc_fields (upload_doc_record e file session_id language t) ''extracted_text''
          = Some (BStr t)"
    by (simp add: upload_doc_record_def DocumentUpload_dict_simps)
  with pre(2) r s' show ?thesis
    by (auto simp: truncated_def)
qed

theorem upload_response_text_witness:
  "\<exists>r s' d. upload_document example_env example_pdf (lit ''s1'') (lit ''english'') example_db
              = (Inr r, s') \<and>
     documents s' = documents example_db @ [d] \<and>
     doc_fields d ''extracted_text'' = Some (BStr (lit ''Notice'' @ nl @ lit ''of hearing'')) \<and>
     up_extracted_text r = lit ''Notice'' @ nl @ lit ''of hearing''"
proof -
  from example_upload_run obtain r s' where
    run: "upload_document example_env example_pdf (lit ''s1'') (lit ''english'') example_db
            = (Inr r, s')"
    by blast
  have short: "length (lit ''Notice'' @ nl @ lit ''of hearing'') \<le> 500"
    by (simp add: lit_def nl_def)
  from upload_response_text [OF run] example_pdf_extract short run show ?thesis
    by auto
qed

text \<open>
  C6. A successful upload appends exactly one DocumentUpload and exactly one ChatMessage,
  both under the request's session id. The ChatMessage has message type "document", the
  message "Uploaded document: " followed by the file name, and as its response the AI
  explanation that the DocumentUpload stores as \<open>simplified_explanation\<close> (and that the
  answer returns).
\<close>

theorem upload_persists_pair:
  assumes "upload_document e file session_id language s = (Inr r, s')"
  shows "\<exists>d c. documents s' = documents s @ [d] \<and>
           chat_messages s' = chat_messages s @ [c] \<and>
           doc_fields d ''session_id'' = Some (BStr session_id) \<and>
           doc_fields c ''session_id'' = Some (BStr session_id) \<and>
           doc_fields c ''message_type'' = Some (BStr (lit ''document'')) \<and>
           doc_fields c ''message'' = Some (BStr (lit ''Uploaded document: '' @ uf_filename file)) \<and>
           doc_fields c ''response'' = Some (BStr (up_explanation r)) \<and>
           doc_fields d ''simplified_explanation'' = Some (BStr (up_explanation r))"
proof -
  from upload_document_InrD [OF assms] obtain t where
    pre: "uf_content_type file \<in> Some ` set allowed_types" "extract_text e file = Inr t"
      "t \<noteq> []" "documents_fault e = None" "chat_messages_fault e = None"
    by blast
  let ?d = "upload_doc_record e file session_id language t"
  let ?c = "upload_chat_record e file session_id language t"
  from assms upload_document_ok [OF pre, of session_id language s]
  have r: "up_explanation r = get_ai_response e (explanation_prompt language t) session_id language"
    and d: "documents s' = documents s @ [?d]"
    and c: "chat_messages s' = chat_messages s @ [?c]"
    by auto
  have "doc_fields ?d ''session_id'' = Some (BStr session_id)"
    and "doc_fields ?d ''simplified_explanation'' = Some (BStr (up_explanation r))"
    by (simp_all add: upload_doc_record_def DocumentUpload_dict_simps r)
  moreover have "doc_fields ?c ''session_id'' = Some (BStr session_id)"
    and "doc_fields ?c ''message_type'' = Some (BStr (lit ''document''))"
    and "doc_fields ?c ''message'' = Some (BStr (lit ''Uploaded document: '' @ uf_filename file))"
    and "doc_fields ?c ''response'' = Some (BStr (up_explanation r))"
    by (simp_all add: upload_chat_record_def ChatMessage_dict_simps r)
  ultimately show ?thesis
    using d c by blast
qed

theorem upload_persists_pair_witness:
  "\<exists>r s' d c. upload_document example_env example_pdf (lit ''s1'') (lit ''english'') example_db
              = (Inr r, s') \<and>
     documents s' = [d] \<and>
     length (chat_messages s') = 4 \<and> last (chat_messages s') = c \<and>
     doc_fields d ''session_id'' = Some (BStr (lit ''s1'')) \<and>
     doc_fields c ''session_id'' = Some (BStr (lit ''s1'')) \<and>
     doc_fields c ''message_type'' = Some (BStr (lit ''document'')) \<and>
     doc_fields c ''message'' = Some (BStr (lit ''Uploaded document: notice.pdf'')) \<and>
     doc_fields c ''response'' = Some (BStr (up_explanation r)) \<and>
     doc_fields d ''simplified_explanation'' = Some (BStr (up_explanation r))"
proof -
  from example_upload_run obtain r s' where
    run: "upload_document example_env example_pdf (lit ''s1'') (lit ''english'') example_db
            = (Inr r, s')"
    by blast
  have name: "lit ''Uploaded document: '' @ uf_filename example_pdf
                = lit ''Uploaded document: notice.pdf''"
    by (simp add: example_pdf_def lit_def)
  have db: "documents example_db = []" "length (chat_messages example_db) = 3"
    by (simp_all add: example_db_def)
  from upload_persists_pair [OF run] obtain d c where
    "documents s' = documents example_db @ [d]"
    "chat_messages s' = chat_messages example_db @ [c]"
    "doc_fields d ''session_id'' = Some (BStr (lit ''s1''))"
    "doc_fields c ''session_id'' = Some (BStr (lit ''s1''))"
    "doc_fields c ''message_type'' = Some (BStr (lit ''document''))"
    "doc_fields c ''message'' = Some (BStr (lit ''Uploaded document: '' @ uf_filename example_pdf))"
    "doc_fields c ''response'' = Some (BStr (up_explanation r))"
    "doc_fields d ''simplified_explanation'' = Some (BStr (up_explanation r))"
    by blast
  with run name db show ?thesis
    by auto
qed


text \<open>
  C10. The two writes of an upload are not atomic: when the DocumentUpload insert succeeds
  and the ChatMessage insert raises, the handler answers with the 500 error "Failed to
  process document", the DocumentUpload just written stays in the store, and no
  ChatMessage is written.
\<close>

theorem upload_not_atomic:
  assumes "uf_content_type file \<in> Some ` set allowed_types"
    and "extract_text e file = Inr t" and "t \<noteq> []"
    and "documents_fault e = None" and "chat_messages_fault e = Some err"
  shows "\<exists>d s'. upload_document e file session_id language s =
             (Inl (HTTPException 500 (lit ''Failed to process document'')), s') \<and>
           documents s' = documents s @ [d] \<and>
           doc_fields d ''extracted_text'' = Some (BStr t) \<and>
           doc_fields d ''session_id'' = Some (BStr session_id) \<and>
           chat_messages s' = chat_messages s"
proof -
  let ?d = "upload_doc_record e file session_id language t"
  have "doc_fields ?d ''extracted_text'' = Some (BStr t)"
    and "doc_fields ?d ''session_id'' = Some (BStr session_id)"
    by (simp_all add: upload_doc_record_def DocumentUpload_dict_simps)
  with upload_document_chat_fault [OF assms, of session_id language s] show ?thesis
    by simp
qed

theorem upload_not_atomic_witness:
  "uf_content_type example_pdf \<in> Some ` set allowed_types \<and>
   extract_text failing_chat_store_env example_pdf = Inr (lit ''Notice'' @ nl @ lit ''of hearing'') \<and>
   lit ''Notice'' @ nl @ lit ''of hearing'' \<noteq> [] \<and>
   documents_fault failing_chat_store_env = None \<and>
   chat_messages_fault failing_chat_store_env = Some (lit ''down'') \<and>
   (\<exists>d s'. upload_document failing_chat_store_env example_pdf (lit ''s1'') (lit ''english'')
              example_db = (Inl (HTTPException 500 (lit ''Failed to process document'')), s') \<and>
      documents s' = [d] \<and>
      doc_fields d ''extracted_text'' = Some (BStr (lit ''Notice'' @ nl @ lit ''of hearing'')) \<and>
      chat_messages s' = chat_messages example_db)"
proof -
  have f: "documents_fault failing_chat_store_env = None"
    "chat_messages_fault failing_chat_store_env = Some (lit ''down'')"
    by (simp_all add: failing_chat_store_env_def example_env_def)
  have db: "documents example_db = []"
    by (simp add: example_db_def)
  from upload_not_atomic [OF example_pdf_allowed example_pdf_extract_store_fault
      example_text_nonempty f, of "lit ''s1''" "lit ''english''" example_db]
    example_pdf_allowed example_pdf_extract_store_fault example_text_nonempty f db
  show ?thesis by auto
qed

subsection \<open>Chat\<close>

lemma failing_ai_call:
  "send_message failing_ai_env (session_or_new failing_ai_env example_request)
     (language_message (req_language example_request) (req_message example_request))
   = Inl (lit ''timeout'')"
  by (simp add: failing_ai_env_def)

lemma failing_ai_store:
  "chat_messages_fault failing_ai_env = None"
  by (simp add: failing_ai_env_def example_env_def)

lemma example_session: "session_or_new failing_ai_env example_request = lit ''s1''"
  by (simp add: session_or_new_def example_request_def lit_def)

text \<open>
  C4. When the AI Responder raises during /chat, \<open>get_ai_response\<close> returns the fixed
  apology instead of raising, and the handler answers normally with the apology as its
  response. The request fails (with 500) only when the store's insert raises.
\<close>

theorem chat_ai_failure_swallowed:
  assumes "send_message e (session_or_new e request)
             (language_message (req_language request) (req_message request)) = Inl err"
  shows "get_ai_response e (req_message request) (session_or_new e request) (req_language request)
           = apology \<and>
         fst (chat_endpoint e request s) =
           (case chat_messages_fault e of
              None \<Rightarrow>
                Inr \<lparr>resp_response = apology, resp_session_id = session_or_new e request,
                     resp_timestamp = utcnow_response e,
                     resp_sources = [lit ''Indian Legal Database'', lit ''Government Schemes Portal'']\<rparr>
            | Some store_err \<Rightarrow> Inl (HTTPException 500 (lit ''Failed to process chat request'')))"
proof (cases "chat_messages_fault e")
  case None
  with get_ai_response_failure [OF assms] show ?thesis
    by (simp add: chat_endpoint_ok)
next
  case (Some store_err)
  with get_ai_response_failure [OF assms] show ?thesis
    by (simp add: chat_endpoint_fault)
qed

theorem chat_ai_failure_swallowed_witness:
  "send_message failing_ai_env (session_or_new failing_ai_env example_request)
     (language_message (req_language example_request) (req_message example_request))
     = Inl (lit ''timeout'') \<and>
   fst (chat_endpoint failing_ai_env example_request example_db) =
     Inr \<lparr>resp_response = apology, resp_session_id = lit ''s1'', resp_timestamp = 1002,
          resp_sources = [lit ''Indian Legal Database'', lit ''Government Schemes Portal'']\<rparr>"
proof -
  have t: "utcnow_response failing_ai_env = 1002"
    by (simp add: failing_ai_env_def example_env_def)
  from chat_ai_failure_swallowed [OF failing_ai_call, of example_db]
    failing_ai_call failing_ai_store example_session t
  show ?thesis by simp
qed

text \<open>
  C9. When the AI Responder raises during /chat and the store accepts the insert, the
  handler still appends one ChatMessage: message type "text", the user's message, and the
  apology as its response.
\<close>

theorem chat_failed_turn_persisted:
  assumes "send_message e (session_or_new e request)
             (language_message (req_language request) (req_message request)) = Inl err"
    and "chat_messages_fault e = None"
  shows "\<exists>r d. chat_endpoint e request s = (Inr r, s\<lparr>chat_messages := chat_messages s @ [d]\<rparr>) \<and>
           resp_response r = apology \<and>
           doc_fields d ''response'' = Some (BStr apology) \<and>
           doc_fields d ''message'' = Some (BStr (req_message request)) \<and>
           doc_fields d ''message_type'' = Some (BStr (lit ''text'')) \<and>
           doc_fields d ''session_id'' = Some (BStr (session_or_new e request))"
proof -
  let ?d = "\<lparr>doc_oid = Some (oid_chat e),
             doc_fields = ChatMessage_dict
               \<lparr>cm_id = uuid4_chat_id e, cm_session_id = session_or_new e request,
                cm_message = req_message request, cm_response = apology,
                cm_timestamp = utcnow_chat e, cm_message_type = lit ''text''\<rparr>\<rparr>"
  have ai: "get_ai_response e (req_message request) (session_or_new e request)
              (req_language request) = apology"
    using assms(1) by (rule get_ai_response_failure)
  have "\<exists>r. chat_endpoint e request s = (Inr r, s\<lparr>chat_messages := chat_messages s @ [?d]\<rparr>) \<and>
          resp_response r = apology"
    by (simp add: chat_endpoint_ok [OF assms(2)] ai)
  moreover have "doc_fields ?d ''response'' = Some (BStr apology)"
    and "doc_fields ?d ''message'' = Some (BStr (req_message request))"
    and "doc_fields ?d ''message_type'' = Some (BStr (lit ''text''))"
    and "doc_fields ?d ''session_id'' = Some (BStr (session_or_new e request))"
    by (simp_all add: ChatMessage_dict_simps)
  ultimately show ?thesis
    by blast
qed

theorem chat_failed_turn_persisted_witness:
  "send_message failing_ai_env (session_or_new failing_ai_env example_request)
     (language_message (req_language example_request) (req_message example_request))
     = Inl (lit ''timeout'') \<and>
   chat_messages_fault failing_ai_env = None \<and>
   (\<exists>r d. chat_endpoint failing_ai_env example_request example_db
            = (Inr r, example_db\<lparr>chat_messages := chat_messages example_db @ [d]\<rparr>) \<and>
      resp_response r = apology \<and>
      doc_fields d ''response'' = Some (BStr apology) \<and>
      doc_fields d ''message'' = Some (BStr (lit ''What is RTI?'')) \<and>
      doc_fields d ''session_id'' = Some (BStr (lit ''s1'')))"
proof -
  have m: "req_message example_request = lit ''What is RTI?''"
    by (simp add: example_request_def)
  from chat_failed_turn_persisted [OF failing_ai_call failing_ai_store, of example_db]
    failing_ai_call failing_ai_store example_session m
  show ?thesis by auto
qed

text \<open>
  C5. After a successful /chat the store holds one more ChatMessage; its message type is
  "text" and its message is the request's message as the user sent it, which is never the
  language-prefixed text sent to the AI Responder.
\<close>

theorem chat_persists_original_message:
  assumes "chat_endpoint e request s = (Inr r, s')"
  shows "\<exists>d. chat_messages s' = chat_messages s @ [d] \<and>
           documents s' = documents s \<and>
           doc_fields d ''message_type'' = Some (BStr (lit ''text'')) \<and>
           doc_fields d ''message'' = Some (BStr (req_message request)) \<and>
           req_message request \<noteq> language_message (req_language request) (req_message request)"
proof -
  have ok: "chat_messages_fault e = None"
    using assms by (rule chat_endpoint_InrD)
  have "req_message request \<noteq> language_message (req_language request) (req_message request)"
    using language_message_longer [of "req_message request" "req_language request"] by auto
  with assms show ?thesis
    by (auto simp: chat_endpoint_ok [OF ok] ChatMessage_dict_simps)
qed

lemma example_chat_run:
  "\<exists>r s'. chat_endpoint example_env example_request example_db = (Inr r, s')"
  by (simp add: chat_endpoint_ok [OF example_env_faults(2)])

theorem chat_persists_original_message_witness:
  "\<exists>r s' d. chat_endpoint example_env example_request example_db = (Inr r, s') \<and>
     chat_messages s' = chat_messages example_db @ [d] \<and>
     doc_fields d ''message_type'' = Some (BStr (lit ''text'')) \<and>
     doc_fields d ''message'' = Some (BStr (lit ''What is RTI?''))"
proof -
  from example_chat_run obtain r s' where
    run: "chat_endpoint example_env example_request example_db = (Inr r, s')"
    by blast
  have m: "req_message example_request = lit ''What is RTI?''"
    by (simp add: example_request_def)
  from chat_persists_original_message [OF run] run m show ?thesis
    by auto
qed

subsection \<open>Chat history\<close>

lemma bson_key_nonempty: "bson_key v \<noteq> []"
  by (cases v) simp_all

lemma one_le_bson_key: "[Suc 0] \<le> bson_key v"
  by (cases v) simp_all

lemma clean_timestamp_mono:
  assumes "timestamp_key a \<le> timestamp_key b"
  shows "bson_key (h_timestamp (clean a)) \<le> bson_key (h_timestamp (clean b))"
  using assms
  by (auto simp: timestamp_key_def clean_def dict_get_def bson_key_nonempty one_le_bson_key
      split: option.splits)

lemma sorted_clean:
  assumes "sorted (map timestamp_key ds)"
  shows "sorted (map (\<lambda>m. bson_key (h_timestamp m)) (map clean ds))"
proof -
  from assms have "sorted_wrt (\<lambda>a b. timestamp_key a \<le> timestamp_key b) ds"
    by (simp add: sorted_map)
  then have "sorted_wrt (\<lambda>a b. bson_key (h_timestamp (clean a)) \<le> bson_key (h_timestamp (clean b))) ds"
    by (rule sorted_wrt_mono_rel [rotated]) (simp add: clean_timestamp_mono)
  then show ?thesis
    by (simp add: sorted_map sorted_wrt_map)
qed

lemma query_sorted:
  "sorted (map timestamp_key (to_list n (sort_timestamp ds)))"
  by (simp add: to_list_def sort_timestamp_def take_map [symmetric] sorted_wrt_take)

lemma query_length: "length (to_list n ds) \<le> n"
  by (simp add: to_list_def)

lemma query_subset:
  "set (to_list n (sort_timestamp (find_session session_id coll)))
     \<subseteq> {d \<in> set coll. doc_fields d ''session_id'' = Some (BStr session_id)}"
proof -
  have "set (to_list n (sort_timestamp (find_session session_id coll)))
          \<subseteq> set (sort_timestamp (find_session session_id coll))"
    by (simp add: to_list_def set_take_subset)
  also have "\<dots> = {d \<in> set coll. doc_fields d ''session_id'' = Some (BStr session_id)}"
    by (simp add: sort_timestamp_def find_session_def)
  finally show ?thesis .
qed

lemma clean_session:
  "doc_fields d ''session_id'' = Some v \<Longrightarrow> h_session_id (clean d) = v"
  by (simp add: clean_def dict_get_def)

lemma get_chat_history_ok:
  "find_fault e = None \<Longrightarrow>
   get_chat_history e session_id s =
     Inr (map clean (to_list 100 (sort_timestamp (find_session session_id (chat_messages s)))))"
  by (simp add: get_chat_history_def)

text \<open>
  C7. When the store answers the query, /chat-history/{session_id} returns the projection
  \<open>clean\<close> of a list of stored ChatMessage documents that has at most 100 entries, all
  from the collection and all with the session id of the path, in ascending order of
  timestamp (in the store's order, and also as the timestamps appear in the answer).
  Each entry has exactly the six fields of \<open>clean_msg\<close>: a missing \<open>id\<close> becomes the
  string of the store's \<open>_id\<close>, a missing \<open>message\<close>, \<open>response\<close> or \<open>timestamp\<close> the
  empty string, and a missing \<open>message_type\<close> "text".
\<close>

theorem chat_history_result:
  assumes "find_fault e = None"
  shows "\<exists>ds. get_chat_history e session_id s = Inr (map clean ds) \<and>
           length ds \<le> 100 \<and>
           (\<forall>d\<in>set ds. d \<in> set (chat_messages s) \<and>
                        doc_fields d ''session_id'' = Some (BStr session_id) \<and>
                        h_session_id (clean d) = BStr session_id) \<and>
           sorted (map timestamp_key ds) \<and>
           sorted (map (\<lambda>m. bson_key (h_timestamp m)) (map clean ds)) \<and>
           (\<forall>d\<in>set ds.
              h_id (clean d) =
                (case doc_fields d ''id'' of
                   Some v \<Rightarrow> v
                 | None \<Rightarrow> BStr (case doc_oid d of Some h \<Rightarrow> h | None \<Rightarrow> [])) \<and>
              h_message (clean d) =
                (case doc_fields d ''message'' of Some v \<Rightarrow> v | None \<Rightarrow> BStr []) \<and>
              h_response (clean d) =
                (case doc_fields d ''response'' of Some v \<Rightarrow> v | None \<Rightarrow> BStr []) \<and>
              h_timestamp (clean d) =
                (case doc_fields d ''timestamp'' of Some v \<Rightarrow> v | None \<Rightarrow> BStr []) \<and>
              h_message_type (clean d) =
                (case doc_fields d ''message_type'' of
                   Some v \<Rightarrow> v
                 | None \<Rightarrow> BStr (lit ''text'')))"
proof -
  let ?ds = "to_list 100 (sort_timestamp (find_session session_id (chat_messages s)))"
  have "get_chat_history e session_id s = Inr (map clean ?ds)"
    using assms by (rule get_chat_history_ok)
  moreover have "length ?ds \<le> 100"
    by (rule query_length)
  moreover have "\<forall>d\<in>set ?ds. d \<in> set (chat_messages s) \<and>
                        doc_fields d ''session_id'' = Some (BStr session_id) \<and>
                        h_session_id (clean d) = BStr session_id"
    using query_subset [of 100 session_id "chat_messages s"]
    by (auto simp: clean_session)
  moreover have "sorted (map timestamp_key ?ds)"
    by (rule query_sorted)
  moreover have "sorted (map (\<lambda>m. bson_key (h_timestamp m)) (map clean ?ds))"
    by (rule sorted_clean) (rule query_sorted)
  moreover have "\<forall>d\<in>set ?ds.
              h_id (clean d) =
                (case doc_fields d ''id'' of
                   Some v \<Rightarrow> v
                 | None \<Rightarrow> BStr (case doc_oid d of Some h \<Rightarrow> h | None \<Rightarrow> [])) \<and>
              h_message (clean d) =
                (case doc_fields d ''message'' of Some v \<Rightarrow> v | None \<Rightarrow> BStr []) \<and>
              h_response (clean d) =
                (case doc_fields d ''response'' of Some v \<Rightarrow> v | None \<Rightarrow> BStr []) \<and>
              h_timestamp (clean d) =
                (case doc_fields d ''timestamp'' of Some v \<Rightarrow> v | None \<Rightarrow> BStr []) \<and>
              h_message_type (clean d) =
                (case doc_fields d ''message_type'' of
                   Some v \<Rightarrow> v
                 | None \<Rightarrow> BStr (lit ''text''))"
    by (simp add: clean_def dict_get_def)
  ultimately show ?thesis
    by blast
qed

lemma example_history:
  "get_chat_history example_env (lit ''s1'') example_db =
     Inr [\<lparr>h_id = BStr (lit ''m1''), h_session_id = BStr (lit ''s1''), h_message = BStr [],
           h_response = BStr [], h_timestamp = BDatetime 3, h_message_type = BStr (lit ''text'')\<rparr>,
          \<lparr>h_id = BStr (lit ''b2''), h_session_id = BStr (lit ''s1''),
           h_message = BStr (lit ''hello''), h_response = BStr [], h_timestamp = BDatetime 7,
           h_message_type = BStr (lit ''text'')\<rparr>]"
  by (simp add: get_chat_history_def example_env_def example_db_def find_session_def
      sort_timestamp_def to_list_def timestamp_key_def clean_def dict_get_def lit_def)


theorem chat_history_result_witness:
  "find_fault example_env = None \<and>
   get_chat_history example_env (lit ''s1'') example_db =
     Inr [\<lparr>h_id = BStr (lit ''m1''), h_session_id = BStr (lit ''s1''), h_message = BStr [],
           h_response = BStr [], h_timestamp = BDatetime 3, h_message_type = BStr (lit ''text'')\<rparr>,
          \<lparr>h_id = BStr (lit ''b2''), h_session_id = BStr (lit ''s1''),
           h_message = BStr (lit ''hello''), h_response = BStr [], h_timestamp = BDatetime 7,
           h_message_type = BStr (lit ''text'')\<rparr>] \<and>
   (\<exists>ds. get_chat_history example_env (lit ''s1'') example_db = Inr (map clean ds) \<and>
      length ds = 2 \<and> sorted (map timestamp_key ds))"
proof -
  have ok: "find_fault example_env = None"
    by (simp add: example_env_def)
  from chat_history_result [OF ok, of "lit ''s1''" example_db] obtain ds where
    ds: "get_chat_history example_env (lit ''s1'') example_db = Inr (map clean ds)"
      "sorted (map timestamp_key ds)"
    by blast
  from ds(1) have "map clean ds = [\<lparr>h_id = BStr (lit ''m1''), h_session_id = BStr (lit ''s1''),
           h_message = BStr [], h_response = BStr [], h_timestamp = BDatetime 3,
           h_message_type = BStr (lit ''text'')\<rparr>,
          \<lparr>h_id = BStr (lit ''b2''), h_session_id = BStr (lit ''s1''),
           h_message = BStr (lit ''hello''), h_response = BStr [], h_timestamp = BDatetime 7,
           h_message_type = BStr (lit ''text'')\<rparr>]"
    by (simp only: example_history sum.inject)
  then have "length (map clean ds) = 2"
    by simp
  then have "length ds = 2"
    by simp
  with ok ds example_history show ?thesis
    by blast
qed

text \<open>
  C8. When the store answers the query and holds no ChatMessage with the session id of
  the path, /chat-history/{session_id} returns the empty list of messages, not an error.
\<close>

theorem chat_history_empty_session:
  assumes "find_fault e = None"
    and "\<forall>d\<in>set (chat_messages s). doc_fields d ''session_id'' \<noteq> Some (BStr session_id)"
  shows "get_chat_history e session_id s = Inr []"
proof -
  from assms(2) have "find_session session_id (chat_messages s) = []"
    by (simp add: find_session_def filter_empty_conv)
  with assms(1) show ?thesis
    by (simp add: get_chat_history_def sort_timestamp_def to_list_def)
qed

theorem chat_history_empty_session_witness:
  "find_fault example_env = None \<and>
   list_all (\<lambda>d. doc_fields d ''session_id'' \<noteq> Some (BStr (lit ''s9'')))
     (chat_messages example_db) \<and>
   get_chat_history example_env (lit ''s9'') example_db = Inr []"
proof -
  have ok: "find_fault example_env = None"
    by (simp add: example_env_def)
  have none: "\<forall>d\<in>set (chat_messages example_db).
                doc_fields d ''session_id'' \<noteq> Some (BStr (lit ''s9''))"
    by (simp add: example_db_def lit_def)
  from chat_history_empty_session [OF ok none] ok none show ?thesis
    by (simp add: list_all_iff)
qed

end
